theory Spec2Isabelle
  imports Complex_Main "HOL-Library.Sublist"
begin

section \<open>Python strings\<close>

text \<open>
  Python \<open>str\<close> values are modelled as \<open>string\<close>, read as ASCII text: the case
  conversions and the whitespace test below act on the ASCII range and leave every other
  character alone.  Python floats are modelled as \<open>real\<close>: the scores are literals,
  maxima, quotients and weighted sums, stated here as exact arithmetic.
\<close>

definition is_upper :: "char \<Rightarrow> bool" where
  "is_upper c = (65 \<le> (of_char c :: nat) \<and> (of_char c :: nat) \<le> 90)"

definition is_lower :: "char \<Rightarrow> bool" where
  "is_lower c = (97 \<le> (of_char c :: nat) \<and> (of_char c :: nat) \<le> 122)"

definition lower_char :: "char \<Rightarrow> char" where
  "lower_char c = (if is_upper c then char_of ((of_char c :: nat) + 32) else c)"

definition upper_char :: "char \<Rightarrow> char" where
  "upper_char c = (if is_lower c then char_of ((of_char c :: nat) - 32) else c)"

text \<open>\<open>s.lower()\<close>\<close>

definition lower :: "string \<Rightarrow> string" where
  "lower s = map lower_char s"

text \<open>\<open>c.isspace()\<close> on the ASCII range: tab, line feed, vertical tab, form feed,
  carriage return, the four separators 0x1C..0x1F and the space.\<close>

definition is_space :: "char \<Rightarrow> bool" where
  "is_space c = ((9 \<le> (of_char c :: nat) \<and> (of_char c :: nat) \<le> 13)
                 \<or> (28 \<le> (of_char c :: nat) \<and> (of_char c :: nat) \<le> 32))"

text \<open>\<open>s.strip()\<close>\<close>

definition strip :: "string \<Rightarrow> string" where
  "strip s = rev (dropWhile is_space (rev (dropWhile is_space s)))"

text \<open>\<open>s.split(',')\<close>: always at least one part.\<close>

fun split_comma :: "string \<Rightarrow> string list" where
  "split_comma [] = [[]]"
| "split_comma (c # cs) =
     (if c = CHR '','' then [] # split_comma cs
      else (c # hd (split_comma cs)) # tl (split_comma cs))"

text \<open>\<open>needle in haystack\<close> for strings: substring test.\<close>

fun contains :: "string \<Rightarrow> string \<Rightarrow> bool" where
  "contains needle [] = (needle = [])"
| "contains needle (c # cs) = (prefix needle (c # cs) \<or> contains needle cs)"

text \<open>\<open>s.title()\<close>: a cased character is upper-cased when the previous character is
  not cased and lower-cased otherwise.\<close>

fun title_from :: "bool \<Rightarrow> string \<Rightarrow> string" where
  "title_from prev [] = []"
| "title_from prev (c # cs) =
     (if is_upper c \<or> is_lower c
      then (if prev then lower_char c else upper_char c) # title_from True cs
      else c # title_from False cs)"

definition str_title :: "string \<Rightarrow> string" where
  "str_title s = title_from False s"

text \<open>\<open>sep.join(parts)\<close>\<close>

fun join :: "string \<Rightarrow> string list \<Rightarrow> string" where
  "join sep [] = []"
| "join sep [p] = p"
| "join sep (p # q # ps) = p @ sep @ join sep (q # ps)"

text \<open>Truthiness of an \<open>Optional[str]\<close>: \<open>None\<close> and the empty string are falsy.\<close>

fun truthy :: "string option \<Rightarrow> bool" where
  "truthy None = False"
| "truthy (Some s) = (s \<noteq> [])"

text \<open>\<open>d.get(key, default)\<close> on a dictionary given as an association list.\<close>

definition dict_get :: "(string \<times> 'a) list \<Rightarrow> string \<Rightarrow> 'a \<Rightarrow> 'a" where
  "dict_get d k dflt = (case map_of d k of None \<Rightarrow> dflt | Some v \<Rightarrow> v)"

section \<open>Location normalizer (backend/location_logic/normalizer.py)\<close>

record NormalizedLocation =
  city :: "string option"
  country :: "string option"
  location_type :: string
  raw :: string

definition COUNTRY_MAPPINGS :: "(string \<times> string) list" where
  "COUNTRY_MAPPINGS =
    [(''usa'', ''USA''), (''us'', ''USA''), (''united states'', ''USA''),
     (''canada'', ''Canada''), (''ca'', ''Canada''),
     (''uk'', ''United Kingdom''), (''gb'', ''United Kingdom''),
     (''united kingdom'', ''United Kingdom''),
     (''germany'', ''Germany''), (''france'', ''France''),
     (''india'', ''India''), (''in'', ''India''),
     (''uae'', ''UAE''), (''united arab emirates'', ''UAE''), (''dubai'', ''UAE''),
     (''singapore'', ''Singapore''), (''sg'', ''Singapore''),
     (''australia'', ''Australia''), (''au'', ''Australia'')]"

definition CITY_ALIASES :: "(string \<times> string) list" where
  "CITY_ALIASES =
    [(''bengaluru'', ''Bangalore''), (''bangalore'', ''Bangalore''),
     (''bombay'', ''Mumbai''), (''mumbai'', ''Mumbai''),
     (''new delhi'', ''Delhi''), (''delhi'', ''Delhi''),
     (''gurugram'', ''Gurgaon''), (''gurgaon'', ''Gurgaon'')]"

definition REMOTE_KEYWORDS :: "string list" where
  "REMOTE_KEYWORDS =
     [''remote'', ''anywhere'', ''worldwide'', ''global'', ''work from home'', ''wfh'']"

definition HYBRID_KEYWORDS :: "string list" where
  "HYBRID_KEYWORDS = [''hybrid'', ''flexible'', ''remote-friendly'']"

definition normalize_country :: "string \<Rightarrow> string" where
  "normalize_country country_str =
     (let country_lower = strip (lower country_str)
      in dict_get COUNTRY_MAPPINGS country_lower (str_title country_str))"

definition parse_city_country :: "string \<Rightarrow> string option \<times> string option" where
  "parse_city_country location_str =
     (let parts = map strip (split_comma location_str)
      in if length parts = 0 then (None, None)
         else if length parts = 1 then
           (let single = lower (hd parts)
            in case map_of CITY_ALIASES single of
                 Some alias \<Rightarrow> (Some alias, None)
               | None \<Rightarrow> (Some (hd parts), None))
         else if length parts = 2 then
           (Some (dict_get CITY_ALIASES (lower (hd parts)) (hd parts)),
            Some (normalize_country (parts ! 1)))
         else
           (Some (dict_get CITY_ALIASES (lower (hd parts)) (hd parts)),
            Some (normalize_country (last parts))))"

definition normalize_location :: "string \<Rightarrow> NormalizedLocation" where
  "normalize_location location_str =
     (if location_str = [] then
        \<lparr>city = None, country = None, location_type = ''onsite'', raw = ''Not specified''\<rparr>
      else
        (let location_lower = strip (lower location_str)
         in if list_ex (\<lambda>keyword. contains keyword location_lower) REMOTE_KEYWORDS then
              \<lparr>city = None, country = None, location_type = ''remote'', raw = location_str\<rparr>
            else
              (let loc_type =
                     (if list_ex (\<lambda>keyword. contains keyword location_lower) HYBRID_KEYWORDS
                      then ''hybrid'' else ''onsite'');
                   cc = parse_city_country location_str
               in \<lparr>city = fst cc, country = snd cc, location_type = loc_type,
                   raw = location_str\<rparr>)))"

text \<open>The two comparisons of the matching loop of \<open>score_location_match\<close>.\<close>

definition city_match :: "NormalizedLocation \<Rightarrow> NormalizedLocation \<Rightarrow> bool" where
  "city_match job_location pref =
     (truthy (city job_location) \<and> truthy (city pref)
      \<and> lower (the (city job_location)) = lower (the (city pref)))"

definition country_match :: "NormalizedLocation \<Rightarrow> NormalizedLocation \<Rightarrow> bool" where
  "country_match job_location pref =
     (truthy (country job_location) \<and> truthy (country pref)
      \<and> lower (the (country job_location)) = lower (the (country pref)))"

text \<open>The first loop: \<open>best_score\<close> is threaded through the preferences.\<close>

fun match_loop :: "NormalizedLocation \<Rightarrow> NormalizedLocation list \<Rightarrow> real \<Rightarrow> real" where
  "match_loop job_location [] best_score = best_score"
| "match_loop job_location (pref # prefs) best_score =
     (if city_match job_location pref
      then match_loop job_location prefs (max best_score 1.0)
      else if country_match job_location pref
      then match_loop job_location prefs (max best_score 0.7)
      else match_loop job_location prefs best_score)"

text \<open>The relocation loop, entered only when the job has a country: it stops at the
  first preference of the same country (\<open>break\<close>).\<close>

fun relocation_loop :: "NormalizedLocation \<Rightarrow> NormalizedLocation list \<Rightarrow> real \<Rightarrow> real" where
  "relocation_loop job_location [] best_score = best_score"
| "relocation_loop job_location (pref # prefs) best_score =
     (if truthy (country pref)
         \<and> lower (the (country job_location)) = lower (the (country pref))
      then max best_score 0.5
      else relocation_loop job_location prefs best_score)"

definition score_location_match ::
  "NormalizedLocation \<Rightarrow> string list \<Rightarrow> bool \<Rightarrow> bool \<Rightarrow> bool \<Rightarrow> real" where
  "score_location_match job_location preferred_locations open_to_relocation
       open_to_international remote_only =
     (if location_type job_location = ''remote'' then 1.0
      else if remote_only \<and> location_type job_location \<noteq> ''remote'' then 0.2
      else if preferred_locations = [] then 0.5
      else
        (let normalized_prefs = map normalize_location preferred_locations;
             best_score = match_loop job_location normalized_prefs 0.0
         in if best_score = 0.0 then
              (if open_to_relocation then
                 (let best1 = (if truthy (country job_location)
                               then relocation_loop job_location normalized_prefs best_score
                               else best_score)
                  in if best1 = 0.0 \<and> open_to_international then 0.4
                     else if best1 = 0.0 then 0.1
                     else best1)
               else best_score)
            else best_score))"

text \<open>The cascade as the specification words it (rules 1 to 5), for comparison with
  \<open>score_location_match\<close>.\<close>

definition spec_score_location ::
  "NormalizedLocation \<Rightarrow> string list \<Rightarrow> bool \<Rightarrow> bool \<Rightarrow> bool \<Rightarrow> real" where
  "spec_score_location job_location preferred_locations open_to_relocation
       open_to_international remote_only =
     (if location_type job_location = ''remote'' then 1.0
      else if remote_only then 0.2
      else if preferred_locations = [] then 0.5
      else if list_ex (\<lambda>p. city_match job_location (normalize_location p)) preferred_locations
      then 1.0
      else if list_ex (\<lambda>p. country_match job_location (normalize_location p)) preferred_locations
      then 0.7
      else if open_to_relocation
              \<and> list_ex (\<lambda>p. country_match job_location (normalize_location p))
                   preferred_locations
      then 0.5
      else if open_to_international then 0.4
      else 0.1)"

section \<open>Job normalizer (backend/job_normalization/normalizer.py)\<close>

text \<open>
  A raw posting is a dictionary with string keys and unchecked values
  (\<open>Dict[str, Any]\<close>), modelled as an association list of Python values.  A value is
  \<open>None\<close>, a \<open>bool\<close>, an \<open>int\<close>, a \<open>str\<close>, or any other object without a
  \<open>lower\<close> method (a float, a list, a dictionary), which is given by its truthiness
  and its rendering \<open>str(v)\<close>.  \<open>raw_job.get(key, default)\<close> is \<open>dict_get\<close>.
\<close>

datatype pyval = PyNone | PyBool bool | PyInt int | PyStr string | PyOther bool string

type_synonym RawJob = "(string \<times> pyval) list"





text \<open>
  The \<open>location\<close> of a job is the dictionary with the keys \<open>city\<close>, \<open>country\<close>,
  \<open>type\<close> and \<open>raw\<close> that \<open>normalize_job\<close> builds from a \<open>NormalizedLocation\<close>
  (the dataclass declares it as "NormalizedLocation as dict"); it is modelled by the same
  record, the key \<open>type\<close> being the field \<open>location_type\<close>.  The field \<open>id\<close> is
  named \<open>job_id\<close>.

  The dataclass does not check the types of its fields.  The fields that \<open>normalize_job\<close>
  copies from the raw posting hold whatever value the posting holds, so the record is
  generic in the type \<open>'s\<close> of the fields declared \<open>str\<close> and the type \<open>'l\<close> of
  \<open>departments\<close>.  \<open>NormalizedJob\<close> is the record with the declared types, which the
  matcher and the explanation generator work on.
\<close>

record ('s, 'l) NormalizedJob_of =
  job_id :: string
  title :: 's
  company :: 's
  location :: NormalizedLocation
  source :: 's
  apply_url :: 's
  description :: string
  required_skills :: "string list"
  preferred_skills :: "string list"
  employment_type :: 's
  departments :: 'l
  raw_data :: RawJob

type_synonym NormalizedJob = "(string, string list) NormalizedJob_of"







text \<open>\<open>deduplicate_jobs\<close>: the loop threads \<open>seen_ids\<close> and \<open>unique_jobs\<close>.\<close>

fun dedup_loop ::
  "NormalizedJob list \<Rightarrow> string set \<Rightarrow> NormalizedJob list \<Rightarrow> NormalizedJob list" where
  "dedup_loop [] seen_ids unique_jobs = unique_jobs"
| "dedup_loop (j # js) seen_ids unique_jobs =
     (if job_id j \<notin> seen_ids
      then dedup_loop js (insert (job_id j) seen_ids) (unique_jobs @ [j])
      else dedup_loop js seen_ids unique_jobs)"

definition deduplicate_jobs :: "NormalizedJob list \<Rightarrow> NormalizedJob list" where
  "deduplicate_jobs jobs = dedup_loop jobs {} []"

section \<open>Profile and preferences (backend/profile_extraction/schemas.py)\<close>

record ProfileSchema =
  primary_role :: string
  seniority :: string
  skills :: "string list"
  tools :: "string list"
  experience_years :: int
  education :: "string list"
  location_mentions :: "string list"
  skill_clusters :: "string list"
  job_titles :: "string list"

record UserPreferences =
  career_goals :: "string option"
  preferred_locations :: "string list"
  open_to_relocation :: bool
  open_to_international :: bool
  remote_only :: bool

section \<open>Matcher (backend/matching/matcher.py)\<close>

record JobMatch =
  job :: NormalizedJob
  total_score :: real
  location_score :: real
  skill_score :: real
  career_score :: real

definition calculate_skill_similarity :: "string list \<Rightarrow> string list \<Rightarrow> real" where
  "calculate_skill_similarity user_skills job_skills =
     (if user_skills = [] \<or> job_skills = [] then 0.0
      else
        (let user_set = set (map lower user_skills);
             job_set = set (map lower job_skills);
             intersection = card (user_set \<inter> job_set);
             union = card (user_set \<union> job_set)
         in if union = 0 then 0.0
            else
              (let jaccard = real intersection / real union
               in if intersection \<ge> 5 then min 1.0 (jaccard * 1.2) else jaccard)))"

definition seniority_levels :: "(string \<times> int) list" where
  "seniority_levels =
     [(''junior'', 1), (''mid'', 2), (''senior'', 3), (''lead'', 4), (''principal'', 5)]"

definition calculate_career_fit :: "string \<Rightarrow> string \<Rightarrow> string \<Rightarrow> real" where
  "calculate_career_fit user_seniority user_role job_title =
     (let job_title_lower = lower job_title;
          user_level = dict_get seniority_levels user_seniority 2;
          job_level =
            (if list_ex (\<lambda>word. contains word job_title_lower)
                  [''junior'', ''entry'', ''associate''] then 1
             else if list_ex (\<lambda>word. contains word job_title_lower) [''senior'', ''sr'']
             then 3
             else if list_ex (\<lambda>word. contains word job_title_lower)
                  [''lead'', ''staff'', ''principal''] then 4
             else 2);
          level_diff = job_level - user_level
      in if level_diff = 0 then 0.7
         else if level_diff = 1 then 0.9
         else if level_diff = - 1 then 0.4
         else if level_diff \<ge> 2 then 0.6
         else 0.2)"

definition role_keywords :: "(string \<times> string list) list" where
  "role_keywords =
     [(''strategy'', [''strategy'', ''strategic'', ''business strategy'', ''corporate strategy'']),
      (''consulting'', [''consultant'', ''consulting'', ''advisory'', ''advisory services'']),
      (''operations'', [''operations'', ''ops'', ''supply chain'', ''logistics'', ''process'']),
      (''marketing'', [''marketing'', ''brand'', ''digital marketing'', ''growth'', ''demand gen'']),
      (''sales'', [''sales'', ''business development'', ''account'', ''revenue'']),
      (''finance'', [''finance'', ''financial'', ''fp&a'', ''investment'', ''accounting'']),
      (''hr'', [''hr'', ''human resources'', ''talent'', ''people'', ''recruiting''])]"

definition calculate_domain_fit :: "string \<Rightarrow> string \<Rightarrow> string \<Rightarrow> real" where
  "calculate_domain_fit user_role job_title job_description =
     (let job_text = lower (job_title @ '' '' @ job_description);
          user_keywords = dict_get role_keywords user_role []
      in if user_keywords = [] then 0.5
         else
           (let matches = length (filter (\<lambda>keyword. contains keyword job_text) user_keywords)
            in if matches \<ge> 2 then 1.0
               else if matches = 1 then 0.7
               else 0.3))"

definition business_roles :: "string list" where
  "business_roles =
     [''strategy'', ''consulting'', ''operations'', ''marketing'', ''sales'', ''finance'', ''hr'']"

definition score_job :: "NormalizedJob \<Rightarrow> ProfileSchema \<Rightarrow> UserPreferences \<Rightarrow> JobMatch" where
  "score_job j profile preferences =
     (let job_location = \<lparr>city = city (location j), country = country (location j),
                           location_type = location_type (location j),
                           raw = raw (location j)\<rparr>;
          loc_score = score_location_match job_location
                        (preferred_locations preferences)
                        (open_to_relocation preferences)
                        (open_to_international preferences)
                        (remote_only preferences);
          sk_score = calculate_skill_similarity (skills profile @ tools profile)
                        (required_skills j);
          car_score = calculate_career_fit (seniority profile) (primary_role profile) (title j);
          domain_score = calculate_domain_fit (primary_role profile) (title j) (description j);
          is_business_role = (primary_role profile \<in> set business_roles);
          total =
            (if is_business_role
             then 0.3 * loc_score + 0.4 * sk_score + 0.2 * car_score + 0.1 * domain_score
             else 0.5 * loc_score + 0.4 * sk_score + 0.1 * car_score)
      in \<lparr>job = j, total_score = total, location_score = loc_score,
          skill_score = sk_score, career_score = car_score\<rparr>)"

definition apply_hard_filters :: "NormalizedJob list \<Rightarrow> UserPreferences \<Rightarrow> NormalizedJob list" where
  "apply_hard_filters jobs preferences =
     filter (\<lambda>j. \<not> (remote_only preferences \<and> location_type (location j) \<noteq> ''remote'')) jobs"

text \<open>The scoring loop of \<open>match_jobs\<close>: the matches that reach the threshold, in the
  order of the filtered jobs.\<close>

definition scored_jobs ::
  "NormalizedJob list \<Rightarrow> ProfileSchema \<Rightarrow> UserPreferences \<Rightarrow> JobMatch list" where
  "scored_jobs jobs profile preferences =
     filter (\<lambda>m. total_score m \<ge> 0.3)
       (map (\<lambda>j. score_job j profile preferences) (apply_hard_filters jobs preferences))"

text \<open>\<open>xs.sort(key=lambda x: x.total_score, reverse=True)\<close>: a stable sort, descending;
  equal keys keep their order.\<close>

definition sort_by_total_desc :: "JobMatch list \<Rightarrow> JobMatch list" where
  "sort_by_total_desc ms = sort_key (\<lambda>m. - total_score m) ms"

text \<open>\<open>xs[:n]\<close> for a Python integer \<open>n\<close>: a negative \<open>n\<close> counts from the end.\<close>

definition slice_to :: "'a list \<Rightarrow> int \<Rightarrow> 'a list" where
  "slice_to xs n = (if 0 \<le> n then take (nat n) xs else take (length xs - nat (- n)) xs)"

definition match_jobs ::
  "NormalizedJob list \<Rightarrow> ProfileSchema \<Rightarrow> UserPreferences \<Rightarrow> int \<Rightarrow> JobMatch list" where
  "match_jobs jobs profile preferences max_results =
     slice_to (sort_by_total_desc (scored_jobs jobs profile preferences)) max_results"

section \<open>Explanation generator (backend/explanations/generator.py)\<close>

record Explanation =
  why_match :: string
  skill_matches :: "string list"
  skill_gaps :: "string list"
  location_reasoning :: string

definition skill_reason :: "JobMatch \<Rightarrow> ProfileSchema \<Rightarrow> string list" where
  "skill_reason m profile =
     (if skill_score m \<ge> 0.6
      then [''Strong alignment with your '' @ primary_role profile @ '' background'']
      else if skill_score m \<ge> 0.4
      then [''Good fit for your '' @ primary_role profile @ '' experience'']
      else [])"

definition career_reason :: "JobMatch \<Rightarrow> string list" where
  "career_reason m =
     (if career_score m \<ge> 0.8 then [''Excellent career progression opportunity'']
      else if career_score m \<ge> 0.6 then [''Aligns with your career level'']
      else [])"

definition location_reason :: "JobMatch \<Rightarrow> string list" where
  "location_reason m =
     (if location_score m \<ge> 0.9 then [''Perfect location match'']
      else if location_score m \<ge> 0.7 then [''Good location fit'']
      else [])"

definition cluster_reason :: "JobMatch \<Rightarrow> ProfileSchema \<Rightarrow> string list" where
  "cluster_reason m profile =
     (if skill_clusters profile \<noteq> [] then
        (let cluster_match =
               list_ex (\<lambda>cluster. contains cluster (lower (title (job m)))
                                  \<or> contains cluster (lower (description (job m))))
                 (skill_clusters profile)
         in if cluster_match
            then [''Matches your expertise in '' @ join '', '' (take 2 (skill_clusters profile))]
            else [])
      else [])"

definition generate_why_match :: "JobMatch \<Rightarrow> ProfileSchema \<Rightarrow> string" where
  "generate_why_match m profile =
     (let reasons = skill_reason m profile @ career_reason m @ location_reason m
                      @ cluster_reason m profile;
          reasons' = (if reasons = [] then [''Potential fit based on your background'']
                      else reasons)
      in join ''. '' reasons' @ ''.'')"

definition find_skill_matches :: "string list \<Rightarrow> string list \<Rightarrow> string list" where
  "find_skill_matches user_skills job_skills =
     (let user_set = set (map lower user_skills);
          job_set = set (map lower job_skills);
          matches = user_set \<inter> job_set
      in filter (\<lambda>skill. lower skill \<in> matches) user_skills)"

definition find_skill_gaps :: "string list \<Rightarrow> string list \<Rightarrow> string list" where
  "find_skill_gaps user_skills job_skills =
     (let user_set = set (map lower user_skills);
          job_set = set (map lower job_skills);
          gaps = job_set - user_set
      in filter (\<lambda>skill. lower skill \<in> gaps) job_skills)"

text \<open>\<open>str(x)\<close> of an \<open>Optional[str]\<close> inside an f-string.\<close>

definition str_of_opt :: "string option \<Rightarrow> string" where
  "str_of_opt v = (case v of None \<Rightarrow> ''None'' | Some s \<Rightarrow> s)"

definition generate_location_reasoning :: "JobMatch \<Rightarrow> NormalizedJob \<Rightarrow> string" where
  "generate_location_reasoning m j =
     (let loc = location j
      in if location_type loc = ''remote'' then ''Remote position - work from anywhere''
         else if location_score m \<ge> 0.9
         then ''Located in your preferred area: '' @ raw loc
         else if location_score m \<ge> 0.7
         then ''Same country as your preference: '' @ str_of_opt (country loc)
         else if location_score m \<ge> 0.5
         then ''Relocation opportunity to '' @ raw loc
         else ''Location: '' @ raw loc)"

definition generate_explanation :: "JobMatch \<Rightarrow> ProfileSchema \<Rightarrow> Explanation option" where
  "generate_explanation m profile =
     (let j = job m;
          why = generate_why_match m profile;
          matches = find_skill_matches (skills profile @ tools profile) (required_skills j);
          gaps = find_skill_gaps (skills profile @ tools profile) (required_skills j);
          reasoning = generate_location_reasoning m j
      in if why = [] \<or> matches = [] then None
         else Some \<lparr>why_match = why, skill_matches = take 8 matches,
                    skill_gaps = take 5 gaps, location_reasoning = reasoning\<rparr>)"

section \<open>Specification views and sample data\<close>

text \<open>First-seen-wins by \<open>id\<close>, in input order, as the specification words
  deduplication; compared with \<open>deduplicate_jobs\<close> below.\<close>

fun first_seen :: "string set \<Rightarrow> NormalizedJob list \<Rightarrow> NormalizedJob list" where
  "first_seen seen [] = []"
| "first_seen seen (j # js) =
     (if job_id j \<in> seen then first_seen seen js
      else j # first_seen (insert (job_id j) seen) js)"

text \<open>The Jaccard similarity of the glossary: the size of the intersection over the size
  of the union.\<close>

definition jaccard :: "string set \<Rightarrow> string set \<Rightarrow> real" where
  "jaccard A B = real (card (A \<inter> B)) / real (card (A \<union> B))"

text \<open>The scenario of the specification: an operations profile, an onsite job in Mumbai
  and a preference for Mumbai.\<close>

definition example_raw_job :: RawJob where
  "example_raw_job =
     [(''title'', PyStr ''Operations Manager''), (''company'', PyStr ''Acme''),
      (''location_raw'', PyStr ''Mumbai, India''),
      (''description'', PyStr ''Run operations with excel and six sigma'')]"

definition example_job :: NormalizedJob where
  "example_job =
     \<lparr>job_id = ''0123456789abcdef'', title = ''Operations Manager'', company = ''Acme'',
      location = \<lparr>city = Some ''Mumbai'', country = Some ''India'',
                   location_type = ''onsite'', raw = ''Mumbai, India''\<rparr>,
      source = ''unknown'', apply_url = [],
      description = ''Run operations with excel and six sigma'',
      required_skills = [''excel'', ''six sigma''], preferred_skills = [],
      employment_type = ''full-time'', departments = [], raw_data = example_raw_job\<rparr>"

definition example_profile :: ProfileSchema where
  "example_profile =
     \<lparr>primary_role = ''operations'', seniority = ''mid'',
      skills = [''excel'', ''process improvement''], tools = [],
      experience_years = 3, education = [], location_mentions = [],
      skill_clusters = [], job_titles = []\<rparr>"

definition example_preferences :: UserPreferences where
  "example_preferences =
     \<lparr>career_goals = None, preferred_locations = [''Mumbai''],
      open_to_relocation = False, open_to_international = False, remote_only = False\<rparr>"

text \<open>A remote-only variant: two remote postings after the onsite one, the weaker
  match first.\<close>

definition example_remote_preferences :: UserPreferences where
  "example_remote_preferences = example_preferences\<lparr>remote_only := True\<rparr>"

definition example_jobs :: "NormalizedJob list" where
  "example_jobs =
     [example_job,
      example_job\<lparr>job_id := ''r2'', required_skills := [''six sigma''],
        location := \<lparr>city = None, country = None, location_type = ''remote'',
                      raw = ''Remote''\<rparr>\<rparr>,
      example_job\<lparr>job_id := ''r1'',
        location := \<lparr>city = None, country = None, location_type = ''remote'',
                      raw = ''Remote''\<rparr>\<rparr>]"

section \<open>Location scoring\<close>

lemma match_loop_eq:
  "match_loop loc prefs b =
     (if list_ex (city_match loc) prefs then max b 1
      else if list_ex (country_match loc) prefs then max b (7/10)
      else b)"
  by (induction prefs arbitrary: b) (auto simp: max_def)

lemma relocation_loop_no_match:
  "\<not> list_ex (country_match loc) prefs \<Longrightarrow> truthy (country loc)
     \<Longrightarrow> relocation_loop loc prefs b = b"
  by (induction prefs arbitrary: b) (auto simp: country_match_def)

lemma list_ex_map: "list_ex P (map f xs) = list_ex (\<lambda>x. P (f x)) xs"
  by (induction xs) auto

lemma score_location_match_cascade:
  "score_location_match loc prefs otr oti ro =
     (if location_type loc = ''remote'' then 1
      else if ro then 2/10
      else if prefs = [] then 5/10
      else if list_ex (\<lambda>p. city_match loc (normalize_location p)) prefs then 1
      else if list_ex (\<lambda>p. country_match loc (normalize_location p)) prefs then 7/10
      else if \<not> otr then 0
      else if oti then 4/10
      else 1/10)"
  by (simp add: score_location_match_def Let_def match_loop_eq list_ex_map
        relocation_loop_no_match)

text \<open>
  Claim C1, as stated, fails: with no matching preference and \<open>open_to_relocation\<close>
  false the code returns 0.0, where rule (5) of the specification gives 0.1 (or 0.4).
  The job is in Delhi, India, the only preference is London, UK, and every flag is false.
\<close>

theorem score_location_no_match_counterexample:
  "score_location_match (normalize_location ''Delhi, India'') [''London, UK'']
      False False False = 0
   \<and> spec_score_location (normalize_location ''Delhi, India'') [''London, UK'']
      False False False = 1/10"
  by code_simp

text \<open>
  Claim C1, amended: the cascade of \<open>score_location_match\<close>.  A remote job scores 1.0;
  otherwise \<open>remote_only\<close> gives 0.2; otherwise an empty preference list gives 0.5;
  otherwise an exact city match with some normalized preference gives 1.0, else a
  same-country match gives 0.7; and when no preference matched, the result is 0.0 unless
  \<open>open_to_relocation\<close> holds, in which case it is 0.4 when \<open>open_to_international\<close>
  holds and 0.1 otherwise.  (The 0.5 of the relocation branch needs a shared country,
  which is a match of rule (4) already, so it is never returned from there.)
\<close>

theorem score_location_match_amended:
  "score_location_match loc prefs otr oti ro =
     (if location_type loc = ''remote'' then 1.0
      else if ro then 0.2
      else if prefs = [] then 0.5
      else if list_ex (\<lambda>p. city_match loc (normalize_location p)) prefs then 1.0
      else if list_ex (\<lambda>p. country_match loc (normalize_location p)) prefs then 0.7
      else if \<not> otr then 0.0
      else if oti then 0.4
      else 0.1)"
  using score_location_match_cascade [of loc prefs otr oti ro] by simp

text \<open>
  Claim C3, as stated, fails on its second half: the preference \<open>Bangalore\<close> normalizes
  to a city without a country, so the job in Delhi, India matches nothing and, every flag
  being false, scores 0.0 and not 0.7.
\<close>

theorem delhi_bangalore_counterexample:
  "score_location_match (normalize_location ''Delhi, India'') [''Bangalore'']
      False False False \<noteq> 0.7"
  by code_simp

text \<open>
  Claim C3, amended: with the preference list \<open>[Bangalore]\<close> and every flag false, the
  job in Bangalore, India scores 1.0 and the job in Delhi, India scores 0.0; the score 0.7
  for Delhi, India is reached when the preference names the country (Bangalore, India).
\<close>

theorem exact_city_beats_same_country:
  "score_location_match (normalize_location ''Bangalore, India'') [''Bangalore'']
      False False False = 1.0
   \<and> score_location_match (normalize_location ''Delhi, India'') [''Bangalore'']
      False False False = 0.0
   \<and> score_location_match (normalize_location ''Delhi, India'') [''Bangalore, India'']
      False False False = 0.7"
  by code_simp

text \<open>
  Claim C8: the location score lies between 0.0 and 1.0 for every input, and a job whose
  location type is \<open>remote\<close> scores exactly 1.0 whatever the preferences and flags.
\<close>

theorem score_location_match_bounded:
  "0 \<le> score_location_match loc prefs otr oti ro
   \<and> score_location_match loc prefs otr oti ro \<le> 1
   \<and> (location_type loc = ''remote'' \<longrightarrow> score_location_match loc prefs otr oti ro = 1)"
  by (simp add: score_location_match_cascade)

theorem score_location_match_bounded_witness:
  "location_type \<lparr>city = None, country = None, location_type = ''remote'',
       raw = ''Remote''\<rparr> = ''remote''
   \<and> score_location_match \<lparr>city = None, country = None, location_type = ''remote'',
       raw = ''Remote''\<rparr> [''Delhi''] False False False = 1
   \<and> 0 \<le> score_location_match (normalize_location ''Pune, India'') [''Delhi'']
       False False False
   \<and> score_location_match (normalize_location ''Pune, India'') [''Delhi'']
       False False False \<le> 1"
  using score_location_match_bounded
          [of "\<lparr>city = None, country = None, location_type = ''remote'', raw = ''Remote''\<rparr>"
              "[''Delhi'']" False False False]
        score_location_match_bounded
          [of "normalize_location ''Pune, India''" "[''Delhi'']" False False False]
  by simp

section \<open>Deduplication\<close>

lemma dedup_loop_first_seen:
  "dedup_loop js seen acc = acc @ first_seen seen js"
  by (induction js arbitrary: seen acc) auto

lemma first_seen_ids:
  "job_id ` set (first_seen seen js) = job_id ` set js - seen"
  by (induction js arbitrary: seen) auto

lemma first_seen_distinct: "distinct (map job_id (first_seen seen js))"
  by (induction js arbitrary: seen) (auto simp: first_seen_ids)

lemma first_seen_subseq: "subseq (first_seen seen js) js"
  by (induction js arbitrary: seen) auto

lemma first_seen_fixed:
  "distinct (map job_id js) \<Longrightarrow> set (map job_id js) \<inter> seen = {} \<Longrightarrow> first_seen seen js = js"
  by (induction js arbitrary: seen) auto

lemma first_seen_find:
  "j \<in> set (first_seen seen js) \<Longrightarrow> find (\<lambda>x. job_id x = job_id j) js = Some j"
proof (induction js arbitrary: seen)
  case Nil
  then show ?case by simp
next
  case (Cons x js)
  have notin: "\<And>s. j \<in> set (first_seen s js) \<Longrightarrow> job_id j \<notin> s"
  proof -
    fix s assume "j \<in> set (first_seen s js)"
    then have "job_id j \<in> job_id ` set (first_seen s js)" by simp
    then show "job_id j \<notin> s" by (simp add: first_seen_ids)
  qed
  show ?case
  proof (cases "job_id x \<in> seen")
    case True
    with Cons.prems have in_rest: "j \<in> set (first_seen seen js)" by simp
    from notin [OF in_rest] True have "job_id x \<noteq> job_id j" by auto
    with Cons.IH [OF in_rest] show ?thesis by simp
  next
    case False
    with Cons.prems have "j = x \<or> j \<in> set (first_seen (insert (job_id x) seen) js)" by simp
    then show ?thesis
    proof
      assume "j = x" then show ?thesis by simp
    next
      assume in_rest: "j \<in> set (first_seen (insert (job_id x) seen) js)"
      from notin [OF in_rest] have "job_id x \<noteq> job_id j" by auto
      with Cons.IH [OF in_rest] show ?thesis by simp
    qed
  qed
qed

text \<open>
  Claim C6: \<open>deduplicate_jobs\<close> is idempotent, and its output is the first-seen-wins
  selection: a subsequence of the input (input order kept) with pairwise distinct ids,
  the same set of ids as the input, each kept job being the first job of the input that
  carries its id.
\<close>

theorem deduplicate_jobs_first_occurrence:
  "deduplicate_jobs (deduplicate_jobs jobs) = deduplicate_jobs jobs
   \<and> deduplicate_jobs jobs = first_seen {} jobs
   \<and> subseq (deduplicate_jobs jobs) jobs
   \<and> distinct (map job_id (deduplicate_jobs jobs))
   \<and> set (map job_id (deduplicate_jobs jobs)) = set (map job_id jobs)
   \<and> (\<forall>j \<in> set (deduplicate_jobs jobs). find (\<lambda>x. job_id x = job_id j) jobs = Some j)"
proof -
  have eq: "deduplicate_jobs xs = first_seen {} xs" for xs
    by (simp add: deduplicate_jobs_def dedup_loop_first_seen)
  have idem: "first_seen {} (first_seen {} jobs) = first_seen {} jobs"
    by (rule first_seen_fixed) (simp_all add: first_seen_distinct)
  show ?thesis
    using idem first_seen_subseq [of "{}" jobs] first_seen_distinct [of "{}" jobs]
      first_seen_ids [of "{}" jobs] first_seen_find [of _ "{}" jobs]
    by (simp add: eq)
qed

theorem deduplicate_jobs_witness:
  "deduplicate_jobs
      [example_job, example_job\<lparr>job_id := ''b'', title := ''Analyst''\<rparr>,
       example_job\<lparr>title := ''Duplicate''\<rparr>]
     = [example_job, example_job\<lparr>job_id := ''b'', title := ''Analyst''\<rparr>]
   \<and> find (\<lambda>x. job_id x = job_id example_job)
       [example_job, example_job\<lparr>job_id := ''b'', title := ''Analyst''\<rparr>,
        example_job\<lparr>title := ''Duplicate''\<rparr>] = Some example_job"
proof -
  let ?jobs = "[example_job, example_job\<lparr>job_id := ''b'', title := ''Analyst''\<rparr>,
                example_job\<lparr>title := ''Duplicate''\<rparr>]"
  have out: "deduplicate_jobs ?jobs
               = [example_job, example_job\<lparr>job_id := ''b'', title := ''Analyst''\<rparr>]"
    by (simp add: deduplicate_jobs_def example_job_def)
  have "example_job \<in> set (deduplicate_jobs ?jobs)"
    by (simp add: out)
  with deduplicate_jobs_first_occurrence [of ?jobs]
  have "find (\<lambda>x. job_id x = job_id example_job) ?jobs = Some example_job"
    by blast
  with out show ?thesis by simp
qed

section \<open>Job normalization\<close>






section \<open>Matching\<close>

lemma location_rebuild:
  "\<lparr>city = city l, country = country l, location_type = location_type l, raw = raw l\<rparr>
     = (l :: NormalizedLocation)"
  by (cases l) simp

text \<open>
  Claim C2: the total score is the weighted sum chosen by membership of the primary role
  in the business-role list: 0.3 location + 0.4 skill + 0.2 career + 0.1 domain for a
  business role, and 0.5 location + 0.4 skill + 0.1 career (no domain term) otherwise.
\<close>

theorem score_job_weighted_sum:
  "total_score (score_job j p prefs) =
     (if primary_role p \<in> set [''strategy'', ''consulting'', ''operations'', ''marketing'',
                                 ''sales'', ''finance'', ''hr'']
      then 0.3 * location_score (score_job j p prefs)
           + 0.4 * skill_score (score_job j p prefs)
           + 0.2 * career_score (score_job j p prefs)
           + 0.1 * calculate_domain_fit (primary_role p) (title j) (description j)
      else 0.5 * location_score (score_job j p prefs)
           + 0.4 * skill_score (score_job j p prefs)
           + 0.1 * career_score (score_job j p prefs))
   \<and> location_score (score_job j p prefs) =
       score_location_match (location j) (preferred_locations prefs)
         (open_to_relocation prefs) (open_to_international prefs) (remote_only prefs)
   \<and> skill_score (score_job j p prefs) =
       calculate_skill_similarity (skills p @ tools p) (required_skills j)
   \<and> career_score (score_job j p prefs) =
       calculate_career_fit (seniority p) (primary_role p) (title j)
   \<and> job (score_job j p prefs) = j"
  by (simp add: score_job_def Let_def business_roles_def location_rebuild)

theorem score_job_weighted_sum_witness:
  "total_score (score_job example_job example_profile example_preferences) = 193 / 300
   \<and> total_score (score_job example_job
         (example_profile\<lparr>primary_role := ''software engineer''\<rparr>) example_preferences)
       = 211 / 300"
proof -
  let ?q = "example_profile\<lparr>primary_role := ''software engineer''\<rparr>"
  have l: "score_location_match (location example_job)
             (preferred_locations example_preferences)
             (open_to_relocation example_preferences)
             (open_to_international example_preferences)
             (remote_only example_preferences) = 1"
    by code_simp
  have s: "calculate_skill_similarity (skills example_profile @ tools example_profile)
             (required_skills example_job) = 1 / 3"
    by code_simp
  have c: "calculate_career_fit (seniority example_profile) (primary_role example_profile)
             (title example_job) = 7 / 10"
    by code_simp
  have d: "calculate_domain_fit (primary_role example_profile) (title example_job)
             (description example_job) = 7 / 10"
    by code_simp
  have b: "primary_role example_profile \<in> set [''strategy'', ''consulting'', ''operations'',
             ''marketing'', ''sales'', ''finance'', ''hr'']"
    by (simp add: example_profile_def)
  have nb: "primary_role ?q \<notin> set [''strategy'', ''consulting'', ''operations'',
             ''marketing'', ''sales'', ''finance'', ''hr'']"
    by simp
  have q: "skills ?q = skills example_profile" "tools ?q = tools example_profile"
    "seniority ?q = seniority example_profile"
    by simp_all
  have c': "calculate_career_fit (seniority example_profile) (primary_role ?q)
             (title example_job) = 7 / 10"
    by code_simp
  from score_job_weighted_sum [of example_job example_profile example_preferences] b l s c d
  have t1: "total_score (score_job example_job example_profile example_preferences) = 193 / 300"
    by simp
  from score_job_weighted_sum [of example_job ?q example_preferences] nb l s c' q
  have t2: "total_score (score_job example_job ?q example_preferences) = 211 / 300"
    by simp
  from t1 t2 show ?thesis by simp
qed

lemma skill_similarity_jaccard:
  "calculate_skill_similarity us js =
     (if us = [] \<or> js = [] then 0
      else if 5 \<le> card (lower ` set us \<inter> lower ` set js)
      then min 1 (jaccard (lower ` set us) (lower ` set js) * 1.2)
      else jaccard (lower ` set us) (lower ` set js))"
  by (simp add: calculate_skill_similarity_def Let_def jaccard_def)

text \<open>
  Claim C5: the skill score is the Jaccard similarity of the lower-cased sets of the
  user's skills and tools and of the job's required skills; it is 0.0 when either list is
  empty; and when the intersection has at least 5 members the Jaccard value is multiplied
  by 1.2 and clamped to 1.0.
\<close>

theorem skill_score_is_boosted_jaccard:
  "calculate_skill_similarity us js =
     (if us = [] \<or> js = [] then 0.0
      else if 5 \<le> card (lower ` set us \<inter> lower ` set js)
      then min 1.0 (jaccard (lower ` set us) (lower ` set js) * 1.2)
      else jaccard (lower ` set us) (lower ` set js))
   \<and> skill_score (score_job j p prefs) =
        calculate_skill_similarity (skills p @ tools p) (required_skills j)
   \<and> lower ` set (skills p @ tools p) = lower ` (set (skills p) \<union> set (tools p))"
  using skill_similarity_jaccard [of us js]
  by (simp add: score_job_def Let_def)

theorem skill_score_witness:
  "calculate_skill_similarity [''A'', ''b'', ''c'', ''d'', ''e'', ''f'']
      [''a'', ''B'', ''c'', ''d'', ''e''] = 1
   \<and> jaccard (lower ` set [''A'', ''b'', ''c'', ''d'', ''e'', ''f''])
        (lower ` set [''a'', ''B'', ''c'', ''d'', ''e'']) = 5 / 6
   \<and> calculate_skill_similarity [''excel'', ''process improvement''] [''excel'', ''six sigma'']
        = 1 / 3
   \<and> calculate_skill_similarity [] [''excel''] = 0"
proof -
  have c: "card (lower ` set [''A'', ''b'', ''c'', ''d'', ''e'', ''f'']
             \<inter> lower ` set [''a'', ''B'', ''c'', ''d'', ''e'']) = 5"
    by code_simp
  have j: "jaccard (lower ` set [''A'', ''b'', ''c'', ''d'', ''e'', ''f''])
        (lower ` set [''a'', ''B'', ''c'', ''d'', ''e'']) = 5 / 6"
    by code_simp
  have c2: "card (lower ` set [''excel'', ''process improvement'']
             \<inter> lower ` set [''excel'', ''six sigma'']) = 1"
    by code_simp
  have j2: "jaccard (lower ` set [''excel'', ''process improvement''])
             (lower ` set [''excel'', ''six sigma'']) = 1 / 3"
    by code_simp
  from skill_score_is_boosted_jaccard
         [of "[''A'', ''b'', ''c'', ''d'', ''e'', ''f'']" "[''a'', ''B'', ''c'', ''d'', ''e'']"]
       skill_score_is_boosted_jaccard
         [of "[''excel'', ''process improvement'']" "[''excel'', ''six sigma'']"]
       skill_score_is_boosted_jaccard [of "[]" "[''excel'']"]
       c j c2 j2
  show ?thesis by simp
qed

lemma slice_to_prefix: "prefix (slice_to xs n) xs"
  by (simp add: slice_to_def take_is_prefix)

lemma sort_by_total_desc_sorted:
  "sorted_wrt (\<lambda>a b. total_score a \<ge> total_score b) (sort_by_total_desc ms)"
proof -
  have "sorted (map (\<lambda>m. - total_score m) (sort_by_total_desc ms))"
    by (simp add: sort_by_total_desc_def)
  then show ?thesis by (simp add: sorted_map)
qed

lemma sort_by_total_desc_stable:
  "filter (\<lambda>m. total_score m = k) (sort_by_total_desc ms) = filter (\<lambda>m. total_score m = k) ms"
  using sort_key_stable [of "\<lambda>m. - total_score m" "- k" ms]
  by (simp add: sort_by_total_desc_def)

lemma scored_jobs_threshold: "m \<in> set (scored_jobs jobs p prefs) \<Longrightarrow> total_score m \<ge> 0.3"
  by (simp add: scored_jobs_def)

lemma job_score_job: "job (score_job j p prefs) = j"
  by (simp add: score_job_def Let_def)

lemma scored_jobs_remote:
  assumes "remote_only prefs" and "m \<in> set (scored_jobs jobs p prefs)"
  shows "location_type (location (job m)) = ''remote''"
proof -
  from assms(2) obtain j where j: "j \<in> set (apply_hard_filters jobs prefs)"
      and m: "m = score_job j p prefs"
    by (auto simp: scored_jobs_def)
  from j assms(1) have "location_type (location j) = ''remote''"
    by (simp add: apply_hard_filters_def)
  with m show ?thesis by (simp add: job_score_job)
qed

lemma match_jobs_subset:
  "set (match_jobs jobs p prefs n) \<subseteq> set (scored_jobs jobs p prefs)"
proof -
  have "set (slice_to (sort_by_total_desc (scored_jobs jobs p prefs)) n)
          \<subseteq> set (sort_by_total_desc (scored_jobs jobs p prefs))"
    by (rule set_mono_prefix) (rule slice_to_prefix)
  then show ?thesis by (simp add: match_jobs_def sort_by_total_desc_def)
qed

text \<open>
  Claim C4, as stated, fails for a negative \<open>max_results\<close>: the slice
  \<open>scored_jobs[:max_results]\<close> then drops elements from the end, and no list is
  shorter than a negative number.  Three jobs pass the threshold here and two are
  returned for \<open>max_results = -1\<close>.
\<close>

theorem match_jobs_negative_limit_counterexample:
  "length (match_jobs example_jobs example_profile example_preferences (- 1)) = 2
   \<and> \<not> int (length (match_jobs example_jobs example_profile example_preferences (- 1)))
          \<le> - 1"
  by code_simp

text \<open>
  Claim C4, amended: for every job list, profile, preferences and \<open>max_results\<close>, the
  output of \<open>match_jobs\<close> contains only matches with a total score of at least 0.3, is
  sorted descending by total score with ties in input order (for every score, the output's
  matches with that score are an initial segment of the scored jobs with that score, in
  their input order), and under \<open>remote_only\<close> contains only jobs whose location type
  is \<open>remote\<close>; its length is at most \<open>max_results\<close> whenever \<open>max_results\<close> is
  not negative.
\<close>

theorem match_jobs_properties:
  "(\<forall>m \<in> set (match_jobs jobs p prefs n). total_score m \<ge> 0.3)
   \<and> (0 \<le> n \<longrightarrow> int (length (match_jobs jobs p prefs n)) \<le> n)
   \<and> sorted_wrt (\<lambda>a b. total_score a \<ge> total_score b) (match_jobs jobs p prefs n)
   \<and> (\<forall>k. prefix (filter (\<lambda>m. total_score m = k) (match_jobs jobs p prefs n))
                  (filter (\<lambda>m. total_score m = k) (scored_jobs jobs p prefs)))
   \<and> (remote_only prefs \<longrightarrow>
        (\<forall>m \<in> set (match_jobs jobs p prefs n). location_type (location (job m)) = ''remote''))"
proof -
  let ?out = "match_jobs jobs p prefs n"
  let ?sorted = "sort_by_total_desc (scored_jobs jobs p prefs)"
  have pre: "prefix ?out ?sorted"
    by (simp add: match_jobs_def slice_to_prefix)
  have thr: "\<forall>m \<in> set ?out. total_score m \<ge> 0.3"
    using match_jobs_subset scored_jobs_threshold by blast
  have len: "0 \<le> n \<longrightarrow> int (length ?out) \<le> n"
    by (auto simp: match_jobs_def slice_to_def sort_by_total_desc_def)
  have srt: "sorted_wrt (\<lambda>a b. total_score a \<ge> total_score b) ?out"
  proof -
    from pre obtain zs where "?sorted = ?out @ zs" by (auto simp: prefix_def)
    with sort_by_total_desc_sorted [of "scored_jobs jobs p prefs"]
    show ?thesis by (simp add: sorted_wrt_append)
  qed
  have ties: "\<forall>k. prefix (filter (\<lambda>m. total_score m = k) ?out)
                     (filter (\<lambda>m. total_score m = k) (scored_jobs jobs p prefs))"
  proof
    fix k
    from pre have "prefix (filter (\<lambda>m. total_score m = k) ?out)
                     (filter (\<lambda>m. total_score m = k) ?sorted)"
      by (rule filter_mono_prefix)
    then show "prefix (filter (\<lambda>m. total_score m = k) ?out)
                 (filter (\<lambda>m. total_score m = k) (scored_jobs jobs p prefs))"
      by (simp add: sort_by_total_desc_stable)
  qed
  have rem: "remote_only prefs \<longrightarrow>
        (\<forall>m \<in> set ?out. location_type (location (job m)) = ''remote'')"
    using match_jobs_subset scored_jobs_remote by blast
  from thr len srt ties rem show ?thesis by blast
qed

theorem match_jobs_witness:
  "remote_only example_remote_preferences \<and> (0::int) \<le> 1
   \<and> map (job_id \<circ> job)
        (match_jobs example_jobs example_profile example_remote_preferences 1) = [''r1'']
   \<and> list_all (\<lambda>m. total_score m \<ge> 0.3 \<and> location_type (location (job m)) = ''remote'')
        (match_jobs example_jobs example_profile example_remote_preferences 1)
   \<and> int (length (match_jobs example_jobs example_profile example_remote_preferences 1)) \<le> 1
   \<and> map (job_id \<circ> job) (match_jobs example_jobs example_profile example_preferences 3)
       = [''0123456789abcdef'', ''r1'', ''r2'']"
proof -
  let ?out = "match_jobs example_jobs example_profile example_remote_preferences 1"
  have ro: "remote_only example_remote_preferences"
    by (simp add: example_remote_preferences_def)
  have ids: "map (job_id \<circ> job) ?out = [''r1'']"
    by code_simp
  have ids3: "map (job_id \<circ> job) (match_jobs example_jobs example_profile example_preferences 3)
                = [''0123456789abcdef'', ''r1'', ''r2'']"
    by code_simp
  from match_jobs_properties [of example_jobs example_profile example_remote_preferences 1] ro
  have "\<forall>m \<in> set ?out. total_score m \<ge> 0.3"
    and "\<forall>m \<in> set ?out. location_type (location (job m)) = ''remote''"
    and "int (length ?out) \<le> 1"
    by simp_all
  with ro ids ids3 show ?thesis by (simp add: list_all_iff)
qed

section \<open>Explanations\<close>

lemma find_skill_matches_empty_iff:
  "find_skill_matches us js = [] \<longleftrightarrow> lower ` set us \<inter> lower ` set js = {}"
  by (auto simp: find_skill_matches_def filter_empty_conv)

lemma generate_why_match_nonempty: "generate_why_match m p \<noteq> []"
  by (simp add: generate_why_match_def Let_def)

text \<open>
  Claim C9: when the case-insensitive intersection of the user's skills and tools with
  the job's required skills is empty, \<open>generate_explanation\<close> returns \<open>None\<close>,
  whatever the scores of the match.
\<close>

theorem explanation_veto:
  "lower ` set (skills p @ tools p) \<inter> lower ` set (required_skills (job m)) = {}
     \<Longrightarrow> generate_explanation m p = None"
  by (simp add: generate_explanation_def Let_def find_skill_matches_empty_iff)

theorem explanation_veto_witness:
  "lower ` set (skills (example_profile\<lparr>skills := [''Python'']\<rparr>)
                   @ tools (example_profile\<lparr>skills := [''Python'']\<rparr>))
      \<inter> lower ` set (required_skills
            (job \<lparr>job = example_job, total_score = 1, location_score = 1,
                   skill_score = 1, career_score = 1\<rparr>)) = {}
   \<and> generate_explanation
         \<lparr>job = example_job, total_score = 1, location_score = 1,
          skill_score = 1, career_score = 1\<rparr>
         (example_profile\<lparr>skills := [''Python'']\<rparr>) = None"
proof -
  have h: "lower ` set (skills (example_profile\<lparr>skills := [''Python'']\<rparr>)
                   @ tools (example_profile\<lparr>skills := [''Python'']\<rparr>))
      \<inter> lower ` set (required_skills
            (job \<lparr>job = example_job, total_score = 1, location_score = 1,
                   skill_score = 1, career_score = 1\<rparr>)) = {}"
    by code_simp
  from explanation_veto [OF h] h show ?thesis by simp
qed

text \<open>
  Claim C10: \<open>generate_explanation\<close> returns \<open>None\<close> if and only if that intersection
  is empty: \<open>_generate_why_match\<close> is never empty, and it is the generic sentence when no
  template applies.
\<close>

theorem explanation_null_iff:
  "(generate_explanation m p = None
      \<longleftrightarrow> lower ` (set (skills p) \<union> set (tools p))
            \<inter> lower ` set (required_skills (job m)) = {})
   \<and> generate_why_match m p \<noteq> []
   \<and> (skill_reason m p @ career_reason m @ location_reason m @ cluster_reason m p = []
        \<longrightarrow> generate_why_match m p = ''Potential fit based on your background.'')"
  by (simp add: generate_explanation_def Let_def find_skill_matches_empty_iff
        generate_why_match_nonempty generate_why_match_def)

theorem explanation_null_iff_witness:
  "skill_reason \<lparr>job = example_job, total_score = 0, location_score = 0,
                  skill_score = 0, career_score = 0\<rparr> example_profile
     @ career_reason \<lparr>job = example_job, total_score = 0, location_score = 0,
                  skill_score = 0, career_score = 0\<rparr>
     @ location_reason \<lparr>job = example_job, total_score = 0, location_score = 0,
                  skill_score = 0, career_score = 0\<rparr>
     @ cluster_reason \<lparr>job = example_job, total_score = 0, location_score = 0,
                  skill_score = 0, career_score = 0\<rparr> example_profile = []
   \<and> generate_why_match \<lparr>job = example_job, total_score = 0, location_score = 0,
                  skill_score = 0, career_score = 0\<rparr> example_profile
       = ''Potential fit based on your background.''
   \<and> generate_explanation \<lparr>job = example_job, total_score = 0, location_score = 0,
                  skill_score = 0, career_score = 0\<rparr> example_profile \<noteq> None"
proof -
  let ?m = "\<lparr>job = example_job, total_score = 0, location_score = 0,
             skill_score = 0, career_score = 0\<rparr>"
  have h: "skill_reason ?m example_profile @ career_reason ?m @ location_reason ?m
             @ cluster_reason ?m example_profile = []"
    by code_simp
  have ne: "lower ` (set (skills example_profile) \<union> set (tools example_profile))
              \<inter> lower ` set (required_skills (job ?m)) \<noteq> {}"
    by code_simp
  from explanation_null_iff [of ?m example_profile] h ne show ?thesis by blast
qed

end
